theory Spec2Isabelle
  imports Complex_Main "HOL-Library.Word" "HOL-Library.Signed_Division" "HOL-Library.Log_Nat"
begin

section \<open>Numbers\<close>

text \<open>
  The widget of \<^verbatim>\<open>tools/cabana/videowidget.cc\<close> computes with three kinds of numbers.
  \<^item> \<^verbatim>\<open>uint64_t\<close> monotonic timestamps in nanoseconds: 64-bit words.
  \<^item> \<^verbatim>\<open>int\<close> (32 bits), the unit of Qt's slider range, of pixel positions and of sizes:
    \<open>int\<close>, with the wrap-around written out (\<open>int32\<close>) in the one expression where the
    intermediate product can leave the 32-bit range (\<open>Slider::mousePressEvent\<close>).
  \<^item> \<^verbatim>\<open>double\<close> seconds: IEEE 754 binary64 numbers. A finite double is the real number
    it denotes, and every sum, difference, product and quotient of the source is the exact
    result rounded to the nearest double, ties to the even one (\<open>rnd\<close>). A quotient by zero
    (a NaN or an infinity in C++) is an explicit error of the model.
\<close>

type_synonym u64 = "64 word"
type_synonym byte = "8 word"

text \<open>
  \<open>binade x\<close> is the exponent \<open>e\<close> with \<open>2^e \<le> |x| < 2^(e+1)\<close>. A double has 53 significant
  bits, so around \<open>x\<close> the doubles are the multiples of \<open>2^(e-52)\<close>, and of \<open>2^(-1074)\<close> once
  that is larger (the subnormal numbers). \<open>rnd\<close> is the rounding of the default mode of the
  processor. The literals of the source that take part in a computation (\<^verbatim>\<open>1000.0\<close>,
  \<^verbatim>\<open>1e9\<close>, \<^verbatim>\<open>1e8\<close>) are integers, which are doubles. Results beyond the
  largest double, which are infinite in C++, are not modelled: in this file they only arise
  where they would be converted to an integer, which C++ leaves undefined.
\<close>

definition binade :: "real \<Rightarrow> int" where
  "binade x =
     (if 1 \<le> \<bar>x\<bar> then bitlen \<lfloor>\<bar>x\<bar>\<rfloor> - 1 else - bitlen (\<lceil>1 / \<bar>x\<bar>\<rceil> - 1))"

definition round_even :: "real \<Rightarrow> int" where
  "round_even y =
     (if y - real_of_int \<lfloor>y\<rfloor> < 1 / 2 then \<lfloor>y\<rfloor>
      else if 1 / 2 < y - real_of_int \<lfloor>y\<rfloor> then \<lfloor>y\<rfloor> + 1
      else if even \<lfloor>y\<rfloor> then \<lfloor>y\<rfloor> else \<lfloor>y\<rfloor> + 1)"

definition rnd :: "real \<Rightarrow> real" where
  "rnd x =
     (if x = 0 then 0
      else real_of_int (round_even (x / 2 powi max (binade x - 52) (- 1074)))
             * 2 powi max (binade x - 52) (- 1074))"

definition d_add :: "real \<Rightarrow> real \<Rightarrow> real" where
  "d_add x y = rnd (x + y)"

definition d_sub :: "real \<Rightarrow> real \<Rightarrow> real" where
  "d_sub x y = rnd (x - y)"

definition d_mul :: "real \<Rightarrow> real \<Rightarrow> real" where
  "d_mul x y = rnd (x * y)"

definition d_div :: "real \<Rightarrow> real \<Rightarrow> real" where
  "d_div x y = rnd (x / y)"

text \<open>
  Conversions. An \<^verbatim>\<open>int\<close> converts to a double exactly, a \<^verbatim>\<open>uint64_t\<close> is rounded. Conversion
  of a double to an integer type truncates towards zero; C++ leaves the conversion of a
  value outside the range of the target type undefined, and no property below depends on
  what the two functions give there.
\<close>

definition uint64_to_double :: "u64 \<Rightarrow> real" where
  "uint64_to_double k = rnd (real (unat k))"

definition double_to_int :: "real \<Rightarrow> int" where
  "double_to_int x = (if 0 \<le> x then \<lfloor>x\<rfloor> else \<lceil>x\<rceil>)"

definition double_to_uint64 :: "real \<Rightarrow> u64" where
  "double_to_uint64 x = word_of_int (double_to_int x)"

text \<open>The value a 32-bit two's complement \<^verbatim>\<open>int\<close> holds after an arithmetic step.\<close>

definition int32 :: "int \<Rightarrow> int" where
  "int32 k = signed_take_bit 31 k"

datatype error = AssertionFailed | DivisionByZero | NotFinite | InvalidPointer | IndexOutOfRange

definition bind_err :: "error + 'a \<Rightarrow> ('a \<Rightarrow> error + 'b) \<Rightarrow> error + 'b" where
  "bind_err r f = (case r of Inl e \<Rightarrow> Inl e | Inr x \<Rightarrow> f x)"

definition deref :: "'a option \<Rightarrow> error + 'a" where
  "deref p = (case p of None \<Rightarrow> Inl InvalidPointer | Some x \<Rightarrow> Inr x)"

section \<open>Data of the log and of the stream\<close>

text \<open>
  The enumerations come from the log schema and from the replay engine, both outside this
  file; the source names the enumerators \<^verbatim>\<open>NONE\<close>, \<^verbatim>\<open>USER_PROMPT\<close>, \<^verbatim>\<open>CRITICAL\<close> and the
  six timeline types. A value-initialised \<^verbatim>\<open>AlertInfo{}\<close> has the first status and two empty
  strings.
\<close>

datatype AlertStatus = NORMAL | USER_PROMPT | CRITICAL

datatype AlertSize = NONE | SMALL | MID | FULL

datatype TimelineType =
    TimelineType_None
  | TimelineType_Engaged
  | TimelineType_AlertInfo
  | TimelineType_AlertWarning
  | TimelineType_AlertCritical
  | TimelineType_UserFlag

record AlertInfo =
  status :: AlertStatus
  text1 :: string
  text2 :: string

definition AlertInfo_default :: AlertInfo where
  "AlertInfo_default = \<lparr>status = NORMAL, text1 = [], text2 = []\<rparr>"

datatype QColor = QColor nat nat nat

fun timeline_colors :: "TimelineType \<Rightarrow> QColor" where
  "timeline_colors TimelineType_None = QColor 111 143 175"
| "timeline_colors TimelineType_Engaged = QColor 0 163 108"
| "timeline_colors TimelineType_UserFlag = QColor 255 0 255"
| "timeline_colors TimelineType_AlertInfo = QColor 0 255 0"
| "timeline_colors TimelineType_AlertWarning = QColor 255 195 0"
| "timeline_colors TimelineType_AlertCritical = QColor 199 0 57"

text \<open>
  A pixmap is null or has a width, a height and pixels. The pixels are kept as the bytes
  they were decoded from.
\<close>

datatype QPixmap = NullPixmap | Pixmap int int "byte list"

fun isNull :: "QPixmap \<Rightarrow> bool" where
  "isNull NullPixmap = True"
| "isNull (Pixmap w h d) = False"

fun pm_width :: "QPixmap \<Rightarrow> int" where
  "pm_width NullPixmap = 0"
| "pm_width (Pixmap w h d) = w"

fun pm_height :: "QPixmap \<Rightarrow> int" where
  "pm_height NullPixmap = 0"
| "pm_height (Pixmap w h d) = h"

text \<open>
  What the widget reads from the stream object \<^verbatim>\<open>can\<close>, and the calls it makes on it.
  \<open>last_segment\<close> is the key of \<^verbatim>\<open>route()->segments().rbegin()\<close>, absent when there is no
  segment.
\<close>

record Stream =
  liveStreaming :: bool
  isPaused :: bool
  currentSec :: real
  totalSeconds :: real
  routeStartTime :: real
  getTimeline :: "(real \<times> real \<times> TimelineType) list"
  last_segment :: "int option"

datatype StreamCall = seekTo real | pause bool | setSpeed real

datatype EventBody =
    THUMBNAIL u64 "byte list"
  | CONTROLS_STATE string string string AlertSize AlertStatus
  | OTHER

record Event =
  mono_time :: u64
  which :: EventBody

section \<open>Ordered maps\<close>

text \<open>
  \<^verbatim>\<open>std::map<uint64_t, AlertInfo>\<close> and \<^verbatim>\<open>QMap<uint64_t, QPixmap>\<close> are lists of entries in
  increasing key order. \<open>lower_bound\<close> is the iterator to the first entry whose key is not
  below the argument (\<open>None\<close> is \<^verbatim>\<open>end()\<close>); \<open>emplace\<close> keeps an entry that is already
  there; \<open>assign\<close> (\<^verbatim>\<open>operator[]\<close> followed by \<^verbatim>\<open>=\<close>) replaces it.
\<close>

fun lower_bound :: "u64 \<Rightarrow> (u64 \<times> 'v) list \<Rightarrow> (u64 \<times> 'v) option" where
  "lower_bound m [] = None"
| "lower_bound m ((k, v) # xs) = (if m \<le> k then Some (k, v) else lower_bound m xs)"

fun emplace :: "u64 \<Rightarrow> 'v \<Rightarrow> (u64 \<times> 'v) list \<Rightarrow> (u64 \<times> 'v) list" where
  "emplace k v [] = [(k, v)]"
| "emplace k v ((k', v') # xs) =
     (if k < k' then (k, v) # (k', v') # xs
      else if k = k' then (k', v') # xs
      else (k', v') # emplace k v xs)"

fun assign :: "u64 \<Rightarrow> 'v \<Rightarrow> (u64 \<times> 'v) list \<Rightarrow> (u64 \<times> 'v) list" where
  "assign k v [] = [(k, v)]"
| "assign k v ((k', v') # xs) =
     (if k < k' then (k, v) # (k', v') # xs
      else if k = k' then (k, v) # xs
      else (k', v') # assign k v xs)"

definition ordered :: "(u64 \<times> 'v) list \<Rightarrow> bool" where
  "ordered xs = sorted_wrt (<) (map fst xs)"

section \<open>InfoLabel\<close>

record InfoLabel =
  pixmap :: QPixmap
  second :: string
  alert_info :: AlertInfo
  visible :: bool
  label_pos :: "int \<times> int"
  label_size :: "int \<times> int"

definition showPixmap :: "int \<times> int \<Rightarrow> string \<Rightarrow> QPixmap \<Rightarrow> AlertInfo \<Rightarrow> InfoLabel \<Rightarrow> InfoLabel" where
  "showPixmap pt sec pm alert l =
     l\<lparr>second := sec, pixmap := pm, alert_info := alert,
       label_size := (pm_width pm, pm_height pm), label_pos := pt, visible := True\<rparr>"

definition showAlert :: "AlertInfo \<Rightarrow> InfoLabel \<Rightarrow> InfoLabel" where
  "showAlert alert l =
     l\<lparr>alert_info := alert, pixmap := NullPixmap, visible := (text1 alert \<noteq> [])\<rparr>"

definition hide :: "InfoLabel \<Rightarrow> InfoLabel" where
  "hide l = l\<lparr>visible := False\<rparr>"

section \<open>Slider\<close>

text \<open>
  The part of Qt's \<^verbatim>\<open>QSlider\<close> the widget uses: the range, the value, whether the handle is
  held, and the geometry. \<^verbatim>\<open>setValue\<close> bounds its argument to the range, and \<^verbatim>\<open>setRange\<close>
  keeps the maximum at or above the minimum and bounds the value again, as Qt documents.
\<close>

record QSlider =
  minimum :: int
  maximum :: int
  slider_value :: int
  sliderDown :: bool
  width :: int
  height :: int
  pos :: "int \<times> int"

record Slider = QSlider +
  thumbnails :: "(u64 \<times> QPixmap) list"
  alerts :: "(u64 \<times> AlertInfo) list"
  thumbnail_label :: InfoLabel

definition factor :: real where
  "factor = 1000"

definition setValue :: "int \<Rightarrow> 'a QSlider_scheme \<Rightarrow> 'a QSlider_scheme" where
  "setValue v s = s\<lparr>slider_value := max (minimum s) (min (maximum s) v)\<rparr>"

definition setRange :: "int \<Rightarrow> int \<Rightarrow> 'a QSlider_scheme \<Rightarrow> 'a QSlider_scheme" where
  "setRange mn mx s = setValue (slider_value s) (s\<lparr>minimum := mn, maximum := max mn mx\<rparr>)"

definition currentSecond :: "'a QSlider_scheme \<Rightarrow> real" where
  "currentSecond s = d_div (real_of_int (slider_value s)) factor"

definition setCurrentSecond :: "real \<Rightarrow> 'a QSlider_scheme \<Rightarrow> 'a QSlider_scheme" where
  "setCurrentSecond sec s = setValue (double_to_int (d_mul sec factor)) s"

definition setTimeRange :: "real \<Rightarrow> real \<Rightarrow> 'a QSlider_scheme \<Rightarrow> error + 'a QSlider_scheme" where
  "setTimeRange mn mx s =
     (if mn < mx
      then Inr (setRange (double_to_int (d_mul mn factor)) (double_to_int (d_mul mx factor)) s)
      else Inl AssertionFailed)"

text \<open>
  Functions of Qt and of the tool's utilities that the widget calls and this file does not
  define. \<open>loadFromData\<close> is \<^verbatim>\<open>QPixmap::loadFromData(bytes, size, format)\<close>: the decoded
  pixmap, or \<open>None\<close> where it returns false. The two base-class mouse handlers give the
  value and the held state they leave the slider in.
\<close>

datatype MouseButton = NoButton | LeftButton | RightButton | MiddleButton

record QMouseEvent =
  button :: MouseButton
  mouse_x :: int
  mouse_y :: int

record Ext =
  formatSeconds :: "real \<Rightarrow> string"
  arg_text :: "real \<Rightarrow> string"
  loadFromData :: "byte list \<Rightarrow> string \<Rightarrow> QPixmap option"
  scaledToHeight :: "QPixmap \<Rightarrow> int \<Rightarrow> QPixmap"
  QSlider_mousePressEvent :: "QSlider \<Rightarrow> QMouseEvent \<Rightarrow> int \<times> bool"
  QSlider_mouseMoveEvent :: "QSlider \<Rightarrow> QMouseEvent \<Rightarrow> int \<times> bool"

definition MIN_VIDEO_HEIGHT :: int where
  "MIN_VIDEO_HEIGHT = 100"

definition THUMBNAIL_MARGIN :: int where
  "THUMBNAIL_MARGIN = 3"

definition mono_time_of :: "Stream \<Rightarrow> real \<Rightarrow> u64" where
  "mono_time_of can seconds =
     double_to_uint64 (d_mul (d_add seconds (routeStartTime can)) 1000000000)"

definition alertInfo :: "Stream \<Rightarrow> real \<Rightarrow> 'a Slider_scheme \<Rightarrow> AlertInfo" where
  "alertInfo can seconds s =
     (let mono_time = mono_time_of can seconds;
          alert_it = lower_bound mono_time (alerts s)
      in case alert_it of
           None \<Rightarrow> AlertInfo_default
         | Some (k, a) \<Rightarrow>
             if uint64_to_double (k - mono_time) \<le> 100000000 then a else AlertInfo_default)"

definition thumbnail :: "Stream \<Rightarrow> real \<Rightarrow> 'a Slider_scheme \<Rightarrow> QPixmap" where
  "thumbnail can seconds s =
     (let mono_time = mono_time_of can seconds;
          it = lower_bound mono_time (thumbnails s)
      in case it of None \<Rightarrow> NullPixmap | Some (k, pm) \<Rightarrow> pm)"

text \<open>
  The body of the lambda that \<open>parseQLog\<close> maps over the events. The map runs the lambda on
  several threads; every update of the two maps is under one mutex, so the result is that of
  running the lambda on the events one after the other in some order. \<open>parseQLog\<close> takes them
  in the order of the log. Its second result is the argument of the \<^verbatim>\<open>updateMaximumTime\<close>
  signal when it is emitted.
\<close>

definition parse_event :: "Ext \<Rightarrow> Event \<Rightarrow> 'a Slider_scheme \<Rightarrow> 'a Slider_scheme" where
  "parse_event ext e s =
     (case which e of
        THUMBNAIL timestampEof data \<Rightarrow>
          (case loadFromData ext data ''jpeg'' of
             Some pm \<Rightarrow>
               s\<lparr>thumbnails :=
                   assign timestampEof
                     (scaledToHeight ext pm (MIN_VIDEO_HEIGHT - THUMBNAIL_MARGIN * 2))
                     (thumbnails s)\<rparr>
           | None \<Rightarrow> s)
      | CONTROLS_STATE alertType alertText1 alertText2 alertSize alertStatus \<Rightarrow>
          if length alertType > 0 \<and> length alertText1 > 0 \<and> alertSize \<noteq> NONE
          then s\<lparr>alerts :=
                   emplace (mono_time e)
                     \<lparr>status = alertStatus, text1 = alertText1, text2 = alertText2\<rparr>
                     (alerts s)\<rparr>
          else s
      | OTHER \<Rightarrow> s)"

definition parseQLog ::
  "Ext \<Rightarrow> Stream \<Rightarrow> int \<Rightarrow> Event list \<Rightarrow> 'a Slider_scheme \<Rightarrow> 'a Slider_scheme \<times> real option" where
  "parseQLog ext can segnum events s =
     (let updateMaximumTime =
            (if last_segment can = Some segnum \<and> events \<noteq> []
             then Some (d_sub (d_div (uint64_to_double (mono_time (last events))) 1000000000)
                         (routeStartTime can))
             else None)
      in (fold (parse_event ext) events s, updateMaximumTime))"

text \<open>
  Painting is the list of the painter's calls, in order. The loop over the timeline keeps
  the rectangle \<open>r\<close> from one segment to the next, as the source does. When the
  difference of the two ends of the range is zero the two quotients are not finite, and the
  conversion of that to \<^verbatim>\<open>int\<close> is not defined.
\<close>

record QRect =
  rect_left :: int
  rect_top :: int
  rect_right :: int
  rect_bottom :: int

datatype PaintCmd = fillRect QRect QColor | drawSliderHandle int int int

fun paint_timeline ::
  "real \<Rightarrow> real \<Rightarrow> int \<Rightarrow> QRect \<Rightarrow> (real \<times> real \<times> TimelineType) list \<Rightarrow> error + PaintCmd list" where
  "paint_timeline min_t max_t w r [] = Inr []"
| "paint_timeline min_t max_t w r ((seg_begin, seg_end, seg_type) # rest) =
     (if seg_begin > max_t \<or> seg_end < min_t then paint_timeline min_t max_t w r rest
      else if d_sub max_t min_t = 0 then Inl NotFinite
      else
        let r1 = r\<lparr>rect_left :=
                   double_to_int
                     (d_mul (d_div (d_sub (max min_t seg_begin) min_t) (d_sub max_t min_t))
                        (real_of_int w))\<rparr>;
            r2 = r1\<lparr>rect_right :=
                   double_to_int
                     (d_mul (d_div (d_sub (min max_t seg_end) min_t) (d_sub max_t min_t))
                        (real_of_int w))\<rparr>
        in bind_err (paint_timeline min_t max_t w r2 rest)
             (\<lambda>cmds. Inr (fillRect r2 (timeline_colors seg_type) # cmds)))"

definition paintEvent :: "Stream \<Rightarrow> 'a Slider_scheme \<Rightarrow> error + PaintCmd list" where
  "paintEvent can s =
     (let r = \<lparr>rect_left = 0, rect_top = 0 + 4,
                rect_right = width s - 1, rect_bottom = height s - 1 - 4\<rparr>;
          min_t = d_div (real_of_int (minimum s)) factor;
          max_t = d_div (real_of_int (maximum s)) factor
      in bind_err (paint_timeline min_t max_t (width s) r (getTimeline can))
           (\<lambda>cmds. Inr (fillRect r (timeline_colors TimelineType_None) # cmds
                         @ [drawSliderHandle (minimum s) (maximum s) (slider_value s)])))"

text \<open>
  The mouse handlers. \<open>mousePressEvent\<close> also tells whether it emitted
  \<^verbatim>\<open>sliderReleased\<close>. Its value is computed in \<^verbatim>\<open>int\<close>: every step is taken modulo
  \<open>2 ^ 32\<close>, and the division truncates and traps on a zero width.
\<close>

definition clamp :: "int \<Rightarrow> int \<Rightarrow> int \<Rightarrow> int" where
  "clamp v lo hi = (if v < lo then lo else if hi < v then hi else v)"

definition mousePressEvent ::
  "Ext \<Rightarrow> QMouseEvent \<Rightarrow> 'a Slider_scheme \<Rightarrow> error + ('a Slider_scheme \<times> bool)" where
  "mousePressEvent ext e s =
     (let (v, d) = QSlider_mousePressEvent ext (QSlider.truncate s) e;
          s1 = s\<lparr>slider_value := v, sliderDown := d\<rparr>
      in if button e = LeftButton \<and> \<not> sliderDown s1 then
           if width s1 = 0 then Inl DivisionByZero
           else
             let val = int32 (minimum s1
                         + int32 (int32 (int32 (maximum s1 - minimum s1) * mouse_x e) sdiv width s1))
             in Inr (setValue val s1, True)
         else Inr (s1, False))"

definition mouseMoveEvent ::
  "Ext \<Rightarrow> Stream \<Rightarrow> QMouseEvent \<Rightarrow> 'a Slider_scheme \<Rightarrow> error + 'a Slider_scheme" where
  "mouseMoveEvent ext can e s =
     (let pos_x = clamp (mouse_x e) 0 (width s)
      in if width s = 0 then Inl NotFinite
         else
           let seconds =
                 d_div
                   (d_add (real_of_int (minimum s))
                      (d_mul (real_of_int pos_x)
                         (d_div (real_of_int (maximum s - minimum s)) (real_of_int (width s)))))
                   factor;
               thumb = thumbnail can seconds s;
               s1 =
                 (if \<not> isNull thumb then
                    let x = clamp (pos_x - pm_width thumb sdiv 2) THUMBNAIL_MARGIN
                              ((width s - 1) - pm_width thumb - THUMBNAIL_MARGIN);
                        y = - pm_height thumb
                    in s\<lparr>thumbnail_label :=
                           showPixmap (x + fst (pos s), y + snd (pos s))
                             (formatSeconds ext seconds) thumb (alertInfo can seconds s)
                             (thumbnail_label s)\<rparr>
                  else s\<lparr>thumbnail_label := hide (thumbnail_label s)\<rparr>);
               (v, d) = QSlider_mouseMoveEvent ext (QSlider.truncate s1) e
           in Inr (s1\<lparr>slider_value := v, sliderDown := d\<rparr>))"

datatype QEventType = WindowActivate | WindowDeactivate | FocusIn | FocusOut | Leave | OtherEvent

definition Slider_event :: "QEventType \<Rightarrow> 'a Slider_scheme \<Rightarrow> 'a Slider_scheme" where
  "Slider_event ty s =
     (if ty = OtherEvent then s else s\<lparr>thumbnail_label := hide (thumbnail_label s)\<rparr>)"

section \<open>VideoWidget\<close>

text \<open>
  A tool button is its text, icon name, tool tip and flags. The button group holds the four
  speed buttons, each with the speed its \<^verbatim>\<open>clicked\<close> lambda captured; the \<^verbatim>\<open>float\<close> speeds are
  read as the decimal literals of the source. Checking a button of an exclusive group
  unchecks the others.
\<close>

record QToolButton =
  btn_text :: string
  btn_icon :: string
  btn_toolTip :: string
  btn_checkable :: bool
  btn_checked :: bool
  btn_enabled :: bool

definition new_QToolButton :: QToolButton where
  "new_QToolButton =
     \<lparr>btn_text = [], btn_icon = [], btn_toolTip = [], btn_checkable = False,
      btn_checked = False, btn_enabled = True\<rparr>"

record QButtonGroup =
  exclusive :: bool
  buttons :: "(QToolButton \<times> real) list"

definition setChecked :: "nat \<Rightarrow> QButtonGroup \<Rightarrow> QButtonGroup" where
  "setChecked i g =
     g\<lparr>buttons :=
         map (\<lambda>(j, (b, speed)).
                (b\<lparr>btn_checked :=
                     (if j = i then True else if exclusive g then False else btn_checked b)\<rparr>,
                 speed))
           (enumerate 0 (buttons g))\<rparr>"

definition add_speed_btn :: "Ext \<Rightarrow> real \<Rightarrow> QButtonGroup \<Rightarrow> QButtonGroup" where
  "add_speed_btn ext speed g =
     (let btn = new_QToolButton\<lparr>btn_text := arg_text ext speed @ ''x'', btn_checkable := True\<rparr>;
          g1 = g\<lparr>buttons := buttons g @ [(btn, speed)]\<rparr>
      in if speed = 1.0 then setChecked (length (buttons g)) g1 else g1)"

definition click_speed_btn :: "nat \<Rightarrow> QButtonGroup \<Rightarrow> error + (QButtonGroup \<times> StreamCall list)" where
  "click_speed_btn i g =
     (if i < length (buttons g)
      then Inr (setChecked i g, [setSpeed (snd (buttons g ! i))])
      else Inl IndexOutOfRange)"

text \<open>
  The labels, the overlay and the slider exist only once \<open>createCameraWidget\<close> has run, which
  the constructor skips for a live stream; until then the pointers are \<open>None\<close>. The camera
  view itself is another widget and is left out. A label is its text.
\<close>

record VideoWidget =
  maximum_time :: real
  end_time_label :: "string option"
  time_label :: "string option"
  play_btn :: QToolButton
  skip_to_end_btn :: "QToolButton option"
  alert_label :: "InfoLabel option"
  slider :: "Slider option"
  group :: QButtonGroup

definition new_InfoLabel :: InfoLabel where
  "new_InfoLabel =
     \<lparr>pixmap = NullPixmap, second = [], alert_info = AlertInfo_default, visible = False,
      label_pos = (0, 0), label_size = (100, 30)\<rparr>"

definition new_Slider :: Slider where
  "new_Slider =
     \<lparr>minimum = 0, maximum = 99, slider_value = 0, sliderDown = False,
      width = 100, height = 30, pos = (0, 0),
      thumbnails = [], alerts = [], thumbnail_label = new_InfoLabel\<rparr>"

text \<open>
  Storing a slider whose value changed runs the \<^verbatim>\<open>valueChanged\<close> connection, which writes the
  current second into the time label. (The constructor sets the range before it makes that
  connection; the value of the new slider, 0, does not change there.)
\<close>

definition set_slider :: "Ext \<Rightarrow> Slider \<Rightarrow> VideoWidget \<Rightarrow> VideoWidget" where
  "set_slider ext s' w =
     (let changed = (case slider w of None \<Rightarrow> False | Some s \<Rightarrow> slider_value s \<noteq> slider_value s');
          w1 = w\<lparr>slider := Some s'\<rparr>
      in if changed then w1\<lparr>time_label := Some (formatSeconds ext (currentSecond s'))\<rparr> else w1)"

definition setMaximumTime :: "Ext \<Rightarrow> real \<Rightarrow> VideoWidget \<Rightarrow> error + VideoWidget" where
  "setMaximumTime ext sec w =
     (let w1 = w\<lparr>maximum_time := sec\<rparr>
      in bind_err (deref (end_time_label w1)) (\<lambda>_.
           let w2 = w1\<lparr>end_time_label := Some (formatSeconds ext sec)\<rparr>
           in bind_err (deref (slider w2)) (\<lambda>s.
                bind_err (setTimeRange 0 sec s) (\<lambda>s'. Inr (set_slider ext s' w2)))))"

definition updateTimeRange ::
  "Ext \<Rightarrow> Stream \<Rightarrow> real \<Rightarrow> real \<Rightarrow> bool \<Rightarrow> VideoWidget \<Rightarrow> error + VideoWidget" where
  "updateTimeRange ext can mn mx is_zoomed w =
     (if liveStreaming can then
        bind_err (deref (skip_to_end_btn w)) (\<lambda>b.
          Inr (w\<lparr>skip_to_end_btn := Some (b\<lparr>btn_enabled := \<not> is_zoomed\<rparr>)\<rparr>))
      else
        let mn' = (if \<not> is_zoomed then 0 else mn);
            mx' = (if \<not> is_zoomed then maximum_time w else mx)
        in bind_err (deref (end_time_label w)) (\<lambda>_.
             let w1 = w\<lparr>end_time_label := Some (formatSeconds ext mx')\<rparr>
             in bind_err (deref (slider w1)) (\<lambda>s.
                  bind_err (setTimeRange mn' mx' s) (\<lambda>s'. Inr (set_slider ext s' w1)))))"

definition updateState :: "Ext \<Rightarrow> Stream \<Rightarrow> VideoWidget \<Rightarrow> error + VideoWidget" where
  "updateState ext can w =
     bind_err (deref (slider w)) (\<lambda>s.
       let s1 = (if \<not> sliderDown s then setCurrentSecond (currentSec can) s else s);
           w1 = set_slider ext s1 w
       in bind_err (deref (alert_label w1)) (\<lambda>l.
            Inr (w1\<lparr>alert_label := Some (showAlert (alertInfo can (currentSec can) s1) l)\<rparr>)))"

definition updatePlayBtnState :: "Stream \<Rightarrow> VideoWidget \<Rightarrow> VideoWidget" where
  "updatePlayBtnState can w =
     w\<lparr>play_btn :=
         (play_btn w)\<lparr>btn_icon := (if isPaused can then ''play'' else ''pause''),
                      btn_toolTip := (if isPaused can then ''Play'' else ''Pause'')\<rparr>\<rparr>"

definition createCameraWidget :: "Ext \<Rightarrow> Stream \<Rightarrow> VideoWidget \<Rightarrow> error + VideoWidget" where
  "createCameraWidget ext can w =
     setMaximumTime ext (totalSeconds can)
       (w\<lparr>alert_label := Some new_InfoLabel, time_label := Some ''00:00'',
          slider := Some new_Slider, end_time_label := Some []\<rparr>)"

definition VideoWidget_ctor :: "Ext \<Rightarrow> Stream \<Rightarrow> error + VideoWidget" where
  "VideoWidget_ctor ext can =
     (let w0 = \<lparr>maximum_time = 0, end_time_label = None, time_label = None,
                 play_btn = new_QToolButton, skip_to_end_btn = None, alert_label = None,
                 slider = None, group = \<lparr>exclusive = True, buttons = []\<rparr>\<rparr>
      in bind_err (if \<not> liveStreaming can then createCameraWidget ext can w0 else Inr w0) (\<lambda>w1.
           let w2 = (if liveStreaming can
                     then w1\<lparr>skip_to_end_btn :=
                              Some (new_QToolButton\<lparr>btn_icon := ''skip-end-fill'',
                                                   btn_toolTip := ''Skip to the end''\<rparr>)\<rparr>
                     else w1);
               w3 = w2\<lparr>group := fold (add_speed_btn ext) [0.1, 0.5, 1, 2] (group w2)\<rparr>
           in Inr (updatePlayBtnState can w3)))"

text \<open>
  The connections of the constructor and of \<open>createCameraWidget\<close>: what the widget does, and
  which calls it makes on the stream, when a signal or an event arrives. A signal of an
  object that was not created does nothing. \<open>slider_geometry\<close> is the layout giving the
  slider its place and size. The \<^verbatim>\<open>updateMaximumTime\<close> signal of \<open>parseQLog\<close> is queued, and
  arrives later as \<open>slider_updateMaximumTime\<close>.
\<close>

datatype Signal =
    play_btn_clicked
  | cam_widget_clicked
  | skip_to_end_btn_clicked
  | speed_btn_clicked nat
  | slider_sliderReleased
  | slider_mousePress QMouseEvent
  | slider_mouseMove QMouseEvent
  | slider_event QEventType
  | slider_geometry "int \<times> int" int int
  | slider_updateMaximumTime real
  | stream_qLogLoaded int "Event list"
  | stream_updated
  | stream_paused
  | stream_resume
  | settings_changed

definition on_slider ::
  "VideoWidget \<Rightarrow> (Slider \<Rightarrow> error + (VideoWidget \<times> StreamCall list)) \<Rightarrow> error + (VideoWidget \<times> StreamCall list)" where
  "on_slider w f = (case slider w of None \<Rightarrow> Inr (w, []) | Some s \<Rightarrow> f s)"

definition dispatch ::
  "Ext \<Rightarrow> Stream \<Rightarrow> Signal \<Rightarrow> VideoWidget \<Rightarrow> error + (VideoWidget \<times> StreamCall list)" where
  "dispatch ext can sig w =
     (case sig of
        play_btn_clicked \<Rightarrow> Inr (w, [pause (\<not> isPaused can)])
      | cam_widget_clicked \<Rightarrow> on_slider w (\<lambda>s. Inr (w, [pause (\<not> isPaused can)]))
      | skip_to_end_btn_clicked \<Rightarrow>
          (case skip_to_end_btn w of
             None \<Rightarrow> Inr (w, [])
           | Some b \<Rightarrow>
               if \<not> btn_enabled b then Inr (w, [])
               else bind_err (click_speed_btn 2 (group w)) (\<lambda>(g, calls).
                      Inr (w\<lparr>group := g\<rparr>,
                           calls @ [pause False, seekTo (d_add (totalSeconds can) 1)])))
      | speed_btn_clicked i \<Rightarrow>
          if i < length (buttons (group w))
          then bind_err (click_speed_btn i (group w)) (\<lambda>(g, calls). Inr (w\<lparr>group := g\<rparr>, calls))
          else Inr (w, [])
      | slider_sliderReleased \<Rightarrow> on_slider w (\<lambda>s. Inr (w, [seekTo (currentSecond s)]))
      | slider_mousePress e \<Rightarrow>
          on_slider w (\<lambda>s.
            bind_err (mousePressEvent ext e s) (\<lambda>(s', released).
              Inr (set_slider ext s' w, if released then [seekTo (currentSecond s')] else [])))
      | slider_mouseMove e \<Rightarrow>
          on_slider w (\<lambda>s.
            bind_err (mouseMoveEvent ext can e s) (\<lambda>s'. Inr (set_slider ext s' w, [])))
      | slider_event ty \<Rightarrow> on_slider w (\<lambda>s. Inr (w\<lparr>slider := Some (Slider_event ty s)\<rparr>, []))
      | slider_geometry p wd ht \<Rightarrow>
          on_slider w (\<lambda>s. Inr (w\<lparr>slider := Some (s\<lparr>width := wd, height := ht, pos := p\<rparr>)\<rparr>, []))
      | slider_updateMaximumTime sec \<Rightarrow>
          on_slider w (\<lambda>s. bind_err (setMaximumTime ext sec w) (\<lambda>w'. Inr (w', [])))
      | stream_qLogLoaded segnum events \<Rightarrow>
          on_slider w (\<lambda>s. Inr (w\<lparr>slider := Some (fst (parseQLog ext can segnum events s))\<rparr>, []))
      | stream_updated \<Rightarrow> on_slider w (\<lambda>s. bind_err (updateState ext can w) (\<lambda>w'. Inr (w', [])))
      | stream_paused \<Rightarrow> Inr (updatePlayBtnState can w, [])
      | stream_resume \<Rightarrow> Inr (updatePlayBtnState can w, [])
      | settings_changed \<Rightarrow> Inr (updatePlayBtnState can w, []))"

definition queued_signals :: "Ext \<Rightarrow> Stream \<Rightarrow> Signal \<Rightarrow> VideoWidget \<Rightarrow> Signal list" where
  "queued_signals ext can sig w =
     (case sig of
        stream_qLogLoaded segnum events \<Rightarrow>
          (case slider w of
             None \<Rightarrow> []
           | Some s \<Rightarrow>
               (case snd (parseQLog ext can segnum events s) of
                  None \<Rightarrow> []
                | Some sec \<Rightarrow> [slider_updateMaximumTime sec]))
      | _ \<Rightarrow> [])"



section \<open>Notions of the specification\<close>

text \<open>
  The events that carry an alert, in the words of the specification: a controls state whose
  alert type and first text are not empty and whose alert size is not \<^verbatim>\<open>NONE\<close>; the alert such
  an event carries; and the thumbnail an event yields, which is its JPEG bytes decoded and
  scaled to a height of 94 pixels, when the decoder accepts them.
\<close>

definition is_alert_event :: "Event \<Rightarrow> bool" where
  "is_alert_event e =
     (case which e of
        CONTROLS_STATE alertType alertText1 alertText2 alertSize alertStatus \<Rightarrow>
          alertType \<noteq> [] \<and> alertText1 \<noteq> [] \<and> alertSize \<noteq> NONE
      | _ \<Rightarrow> False)"

definition alert_of :: "Event \<Rightarrow> AlertInfo" where
  "alert_of e =
     (case which e of
        CONTROLS_STATE alertType alertText1 alertText2 alertSize alertStatus \<Rightarrow>
          \<lparr>status = alertStatus, text1 = alertText1, text2 = alertText2\<rparr>
      | _ \<Rightarrow> AlertInfo_default)"


text \<open>
  The timeline as the specification describes it: \<open>min\<close> and \<open>max\<close>, the minimum and maximum of
  the slider divided by the factor; the bar; the segments that are skipped; and for every
  other segment the rectangle whose left and right edges are the ends of the segment clamped
  to \<open>[min, max]\<close> and mapped proportionally onto the width, in the colour of the segment's
  type.
\<close>

definition range_min :: "'a QSlider_scheme \<Rightarrow> real" where
  "range_min s = d_div (real_of_int (minimum s)) factor"

definition range_max :: "'a QSlider_scheme \<Rightarrow> real" where
  "range_max s = d_div (real_of_int (maximum s)) factor"

definition clamp_to :: "real \<Rightarrow> real \<Rightarrow> real \<Rightarrow> real" where
  "clamp_to lo hi x = max lo (min hi x)"

definition to_pixel :: "'a QSlider_scheme \<Rightarrow> real \<Rightarrow> int" where
  "to_pixel s x =
     double_to_int
       (d_mul (d_div (d_sub x (range_min s)) (d_sub (range_max s) (range_min s)))
          (real_of_int (width s)))"

definition bar :: "'a QSlider_scheme \<Rightarrow> QRect" where
  "bar s = \<lparr>rect_left = 0, rect_top = 4, rect_right = width s - 1, rect_bottom = height s - 5\<rparr>"

definition skipped :: "'a QSlider_scheme \<Rightarrow> real \<times> real \<times> TimelineType \<Rightarrow> bool" where
  "skipped s seg =
     (case seg of (seg_begin, seg_end, seg_type) \<Rightarrow>
        seg_begin > range_max s \<or> seg_end < range_min s)"

definition timeline_rect :: "'a QSlider_scheme \<Rightarrow> real \<times> real \<times> TimelineType \<Rightarrow> PaintCmd" where
  "timeline_rect s seg =
     (case seg of (seg_begin, seg_end, seg_type) \<Rightarrow>
        fillRect
          ((bar s)
             \<lparr>rect_left := to_pixel s (clamp_to (range_min s) (range_max s) seg_begin),
              rect_right := to_pixel s (clamp_to (range_min s) (range_max s) seg_end)\<rparr>)
          (timeline_colors seg_type))"



section \<open>Example objects\<close>

text \<open>
  Concrete collaborators on which the properties below are evaluated: a decoder that accepts
  every non-empty byte string as a 4 by 2 image, a scaler that keeps the aspect ratio, base
  mouse handlers that leave the slider as it is, a replay stream whose route starts at second 1, a slider
  of a one-minute route that holds two thumbnails and three alerts, the same slider with a
  range of 40 seconds, and a widget around the first.
\<close>

definition example_ext :: Ext where
  "example_ext =
     \<lparr>formatSeconds = (\<lambda>x. ''t''),
      arg_text = (\<lambda>x. ''s''),
      loadFromData = (\<lambda>d f. if d = [] then None else Some (Pixmap 4 2 d)),
      scaledToHeight =
        (\<lambda>pm h. case pm of NullPixmap \<Rightarrow> NullPixmap
                 | Pixmap w0 h0 d \<Rightarrow> Pixmap (w0 * h div h0) h d),
      QSlider_mousePressEvent = (\<lambda>s e. (slider_value s, False)),
      QSlider_mouseMoveEvent = (\<lambda>s e. (slider_value s, sliderDown s))\<rparr>"

definition example_can :: Stream where
  "example_can =
     \<lparr>liveStreaming = False, isPaused = False, currentSec = 2, totalSeconds = 0,
      routeStartTime = 1,
      getTimeline =
        [(0, 10, TimelineType_Engaged), (70, 80, TimelineType_AlertCritical),
         (23, 30, TimelineType_AlertWarning)],
      last_segment = None\<rparr>"

definition example_alert :: AlertInfo where
  "example_alert = \<lparr>status = CRITICAL, text1 = ''TAKE CONTROL'', text2 = ''Brake''\<rparr>"

definition example_slider :: Slider where
  "example_slider =
     new_Slider
       \<lparr>maximum := 60000, width := 200,
        thumbnails := [(2500000000, Pixmap 141 94 [1]), (8199999999, Pixmap 141 94 [2])],
        alerts := [(1000000000, \<lparr>status = NORMAL, text1 = ''Be ready'', text2 = []\<rparr>),
                   (1000999999, \<lparr>status = NORMAL, text1 = ''Steer'', text2 = []\<rparr>),
                   (3050000000, example_alert)]\<rparr>"

definition short_slider :: Slider where
  "short_slider = example_slider\<lparr>maximum := 40000\<rparr>"

definition example_widget :: VideoWidget where
  "example_widget =
     \<lparr>maximum_time = 0, end_time_label = Some [], time_label = Some ''00:00'',
      play_btn = new_QToolButton, skip_to_end_btn = None,
      alert_label = Some new_InfoLabel, slider = Some example_slider,
      group = \<lparr>exclusive = True, buttons = []\<rparr>\<rparr>"


definition example_events :: "Event list" where
  "example_events =
     [\<lparr>mono_time = 4000000000,
       which = CONTROLS_STATE ''userPrompt/1'' ''Steer'' [] SMALL USER_PROMPT\<rparr>,
      \<lparr>mono_time = 5000000000, which = CONTROLS_STATE [] [] [] NONE NORMAL\<rparr>,
      \<lparr>mono_time = 6000000000, which = THUMBNAIL 5900000000 [255, 216]\<rparr>]"

text \<open>
  A live stream of ten seconds, a replay stream of one hour, and a press of the left button.
\<close>

definition live_can :: Stream where
  "live_can = example_can\<lparr>liveStreaming := True, totalSeconds := 10\<rparr>"



section \<open>Properties\<close>

subsection \<open>Doubles\<close>

text \<open>
  What the properties below need of the rounding: \<open>binade\<close> is the exponent it is meant to
  be, the rounded value of a normal number is within a relative distance of \<open>2^(-53)\<close>,
  and integers of at most 53 bits are doubles.
\<close>

lemma powi2_less_cancel: "(2::real) powi k < 2 powi m \<Longrightarrow> k < m"
  using power_int_increasing [of m k "2::real"] by (cases "k < m") auto


lemma binade_bounds:
  assumes "x \<noteq> 0"
  shows "2 powi binade x \<le> \<bar>x\<bar>" and "\<bar>x\<bar> < 2 powi (binade x + 1)"
proof -
  have "2 powi binade x \<le> \<bar>x\<bar> \<and> \<bar>x\<bar> < 2 powi (binade x + 1)"
  proof (cases "1 \<le> \<bar>x\<bar>")
    case True
    define n where "n = \<lfloor>\<bar>x\<bar>\<rfloor>"
    from True have n: "0 < n" by (simp add: n_def)
    from bitlen_bounds [OF n] have lo: "2 ^ nat (bitlen n - 1) \<le> n" and hi: "n < 2 ^ nat (bitlen n)"
      by simp_all
    from n have b: "1 \<le> bitlen n"
      using bitlen_eq_zero_iff [of n] bitlen_nonneg [of n] by linarith
    have e: "binade x = bitlen n - 1"
      using True by (simp add: binade_def n_def)
    have "real_of_int (2 ^ nat (bitlen n - 1)) \<le> real_of_int n"
      using lo by (simp only: of_int_le_iff)
    also have "real_of_int n \<le> \<bar>x\<bar>"
      by (simp add: n_def)
    finally have 1: "2 powi binade x \<le> \<bar>x\<bar>"
      using b by (simp add: e power_int_nonneg_exp)
    from hi have "n + 1 \<le> 2 ^ nat (bitlen n)" by simp
    then have "real_of_int (n + 1) \<le> real_of_int (2 ^ nat (bitlen n))"
      by (simp only: of_int_le_iff)
    moreover have "\<bar>x\<bar> < real_of_int (n + 1)"
      by (simp add: n_def)
    ultimately have "\<bar>x\<bar> < 2 ^ nat (bitlen n)" by simp
    then have 2: "\<bar>x\<bar> < 2 powi (binade x + 1)"
      using b by (simp add: e power_int_nonneg_exp)
    from 1 2 show ?thesis ..
  next
    case False
    with assms have x: "0 < \<bar>x\<bar>" "\<bar>x\<bar> < 1" by simp_all
    define y where "y = 1 / \<bar>x\<bar>"
    from x have y: "1 < y" by (simp add: y_def)
    define m where "m = \<lceil>y\<rceil> - 1"
    from y have m: "0 < m" unfolding m_def by linarith
    from bitlen_bounds [OF m] have lo: "2 ^ nat (bitlen m - 1) \<le> m" and hi: "m < 2 ^ nat (bitlen m)"
      by simp_all
    from m have b: "1 \<le> bitlen m"
      using bitlen_eq_zero_iff [of m] bitlen_nonneg [of m] by linarith
    have e: "binade x = - bitlen m"
      using False by (simp add: binade_def m_def y_def)
    from hi have "m + 1 \<le> 2 ^ nat (bitlen m)" by simp
    then have "real_of_int (m + 1) \<le> real_of_int (2 ^ nat (bitlen m))"
      by (simp only: of_int_le_iff)
    moreover have "y \<le> real_of_int (m + 1)"
      by (simp add: m_def)
    ultimately have "y \<le> 2 ^ nat (bitlen m)" by simp
    then have "1 / \<bar>x\<bar> \<le> 2 ^ nat (bitlen m)" by (simp add: y_def)
    with x have "1 / 2 ^ nat (bitlen m) \<le> \<bar>x\<bar>"
      by (simp add: field_simps)
    then have 1: "2 powi binade x \<le> \<bar>x\<bar>"
      using b by (simp add: e power_int_minus_divide power_int_nonneg_exp)
    have "real_of_int (2 ^ nat (bitlen m - 1)) \<le> real_of_int m"
      using lo by (simp only: of_int_le_iff)
    then have "(2::real) ^ nat (bitlen m - 1) \<le> real_of_int m"
      by simp
    moreover have "real_of_int m < y"
      unfolding m_def by linarith
    ultimately have "2 ^ nat (bitlen m - 1) < y" by linarith
    then have "2 ^ nat (bitlen m - 1) < 1 / \<bar>x\<bar>" by (simp add: y_def)
    with x have "\<bar>x\<bar> < 1 / 2 ^ nat (bitlen m - 1)"
      by (simp add: field_simps)
    moreover have "(2::real) powi (binade x + 1) = 1 / 2 ^ nat (bitlen m - 1)"
    proof -
      have "binade x + 1 = - (bitlen m - 1)" by (simp add: e)
      then have "(2::real) powi (binade x + 1) = 1 / 2 powi (bitlen m - 1)"
        by (simp only: power_int_minus_divide)
      then show ?thesis
        using b by (simp add: power_int_nonneg_exp)
    qed
    ultimately have 2: "\<bar>x\<bar> < 2 powi (binade x + 1)" by simp
    from 1 2 show ?thesis ..
  qed
  then show "2 powi binade x \<le> \<bar>x\<bar>" and "\<bar>x\<bar> < 2 powi (binade x + 1)"
    by simp_all
qed

lemma round_even_error: "\<bar>real_of_int (round_even y) - y\<bar> \<le> 1 / 2"
  unfolding round_even_def by (auto simp: abs_if) linarith+


lemma rnd_error_binade:
  assumes "x \<noteq> 0" and "- 1022 \<le> binade x"
  shows "\<bar>rnd x - x\<bar> \<le> \<bar>x\<bar> / 2 ^ 53"
proof -
  define q where "q = binade x - 52"
  from assms have mx: "max (binade x - 52) (- 1074) = q" by (simp add: q_def)
  have p: "0 < (2::real) powi q" by simp
  define y where "y = x / 2 powi q"
  have x: "x = y * 2 powi q" by (simp add: y_def)
  have "rnd x - x = (real_of_int (round_even y) - y) * 2 powi q"
    using assms(1) by (simp add: rnd_def mx y_def algebra_simps)
  then have "\<bar>rnd x - x\<bar> = \<bar>real_of_int (round_even y) - y\<bar> * 2 powi q"
    by (simp add: abs_mult)
  also have "\<dots> \<le> 1 / 2 * 2 powi q"
    using round_even_error [of y] p by (simp add: mult_right_mono)
  also have "1 / 2 * 2 powi q = (2::real) powi binade x / 2 ^ 53"
  proof -
    have "(2::real) powi binade x = 2 powi (q + 52)" by (simp add: q_def)
    also have "\<dots> = 2 powi q * 2 ^ 52" by (simp add: power_int_add)
    finally show ?thesis by simp
  qed
  also have "\<dots> \<le> \<bar>x\<bar> / 2 ^ 53"
    using binade_bounds(1) [OF assms(1)] by (simp add: divide_right_mono)
  finally show ?thesis .
qed

lemma binade_ge:
  assumes "2 powi k \<le> \<bar>x\<bar>"
  shows "k \<le> binade x"
proof -
  from assms have nz: "x \<noteq> 0"
    by (metis abs_zero not_le zero_less_numeral zero_less_power_int)
  from assms binade_bounds(2) [OF nz] have "(2::real) powi k < 2 powi (binade x + 1)"
    by simp
  then have "k < binade x + 1"
    by (rule powi2_less_cancel)
  then show ?thesis by simp
qed

lemma rnd_error:
  assumes "1 / 1024 \<le> \<bar>x\<bar>"
  shows "\<bar>rnd x - x\<bar> \<le> \<bar>x\<bar> / 2 ^ 53"
proof -
  have "(2::real) powi (- 10) = 1 / 1024"
    by (simp add: power_int_minus_divide)
  with assms have "(2::real) powi (- 10) \<le> \<bar>x\<bar>" by simp
  then have "- 10 \<le> binade x" by (rule binade_ge)
  moreover from assms have "x \<noteq> 0" by auto
  ultimately show ?thesis by (intro rnd_error_binade) simp_all
qed



lemma range_error:
  assumes "\<bar>a\<bar> \<le> 2147483648"
  shows "\<bar>d_div (real_of_int a) factor - real_of_int a / 1000\<bar> \<le> 1 / 4000000000"
proof (cases "a = 0")
  case True
  then show ?thesis by (simp add: d_div_def rnd_def)
next
  case False
  define x where "x = real_of_int a / 1000"
  from False have "1 \<le> \<bar>a\<bar>" by simp
  then have "real_of_int 1 \<le> real_of_int \<bar>a\<bar>" by (simp only: of_int_le_iff)
  then have lo: "1 / 1000 \<le> \<bar>x\<bar>" by (simp add: x_def)
  from assms have "real_of_int \<bar>a\<bar> \<le> real_of_int 2147483648" by (simp only: of_int_le_iff)
  then have hi: "\<bar>x\<bar> \<le> 2147483648 / 1000" by (simp add: x_def)
  from lo have "1 / 1024 \<le> \<bar>x\<bar>" by simp
  from rnd_error [OF this] have "\<bar>rnd x - x\<bar> \<le> \<bar>x\<bar> / 2 ^ 53" .
  also from hi have "\<bar>x\<bar> / 2 ^ 53 \<le> 1 / 4000000000" by simp
  finally show ?thesis by (simp add: d_div_def factor_def x_def)
qed

lemma range_not_empty:
  assumes "- 2147483648 \<le> minimum s" and "minimum s < maximum s" and "maximum s \<le> 2147483647"
  shows "range_min s < range_max s" and "d_sub (range_max s) (range_min s) \<noteq> 0"
proof -
  from assms have "\<bar>minimum s\<bar> \<le> 2147483648" and "\<bar>maximum s\<bar> \<le> 2147483648"
    by simp_all
  from range_error [OF this(1)] range_error [OF this(2)]
  have lo: "range_min s \<le> real_of_int (minimum s) / 1000 + 1 / 4000000000"
    and hi: "real_of_int (maximum s) / 1000 - 1 / 4000000000 \<le> range_max s"
    by (simp_all add: range_min_def range_max_def abs_if split: if_splits)
  from assms(2) have "minimum s + 1 \<le> maximum s" by simp
  then have "real_of_int (minimum s + 1) \<le> real_of_int (maximum s)"
    by (simp only: of_int_le_iff)
  then have "real_of_int (minimum s) / 1000 + 1 / 1000 \<le> real_of_int (maximum s) / 1000"
    by simp
  with lo hi have d: "1 / 1024 \<le> range_max s - range_min s"
    by simp
  then show "range_min s < range_max s" by simp
  from d have "1 / 1024 \<le> \<bar>range_max s - range_min s\<bar>" by simp
  from rnd_error [OF this] d show "d_sub (range_max s) (range_min s) \<noteq> 0"
    by (simp add: d_sub_def abs_if split: if_splits)
qed

lemmas double_eval =
  rnd_def binade_def round_even_def compute_bitlen d_add_def d_sub_def d_mul_def d_div_def
  double_to_int_def double_to_uint64_def uint64_to_double_def factor_def

subsection \<open>The time range\<close>

text \<open>
  C7. \<open>Slider::setTimeRange\<close> completes exactly when \<open>min < max\<close> and fails its assertion
  otherwise. So \<open>VideoWidget::setMaximumTime\<close>, on a widget whose camera part exists,
  completes exactly when \<open>sec > 0\<close> and fails the assertion for every \<open>sec \<le> 0\<close>; and the
  constructor fails it for a replay stream whose total time is not positive.
\<close>

theorem setMaximumTime_assertion:
  assumes "end_time_label w = Some t" and "slider w = Some s"
  shows "(setTimeRange mn mx s = Inl AssertionFailed) = (\<not> mn < mx)
       \<and> ((\<exists>s'. setTimeRange mn mx s = Inr s') = (mn < mx))
       \<and> ((\<exists>w'. setMaximumTime ext sec w = Inr w') = (0 < sec))
       \<and> ((setMaximumTime ext sec w = Inl AssertionFailed) = (sec \<le> 0))
       \<and> (\<not> liveStreaming can \<and> totalSeconds can \<le> 0
            \<longrightarrow> VideoWidget_ctor ext can = Inl AssertionFailed)"
  using assms
  by (auto simp: setTimeRange_def setMaximumTime_def bind_err_def deref_def Let_def
                 VideoWidget_ctor_def createCameraWidget_def)

theorem setMaximumTime_assertion_witness:
  "setMaximumTime example_ext 0 example_widget = Inl AssertionFailed
   \<and> (\<exists>w'. setMaximumTime example_ext 5 example_widget = Inr w')
   \<and> VideoWidget_ctor example_ext example_can = Inl AssertionFailed"
  using setMaximumTime_assertion [of example_widget "[]" example_slider 0 1 example_ext 0 example_can]
        setMaximumTime_assertion [of example_widget "[]" example_slider 0 1 example_ext 5 example_can]
  by (simp add: example_widget_def example_can_def)

subsection \<open>Ordered maps\<close>

lemma lower_bound_Some:
  "lower_bound m xs = Some (k, v) \<Longrightarrow> (k, v) \<in> set xs \<and> m \<le> k"
  by (induction xs) (auto split: if_splits)




lemma keys_emplace: "fst ` set (emplace k v xs) = insert k (fst ` set xs)"
proof (induction xs)
  case Nil
  then show ?case by simp
next
  case (Cons x xs)
  obtain k' v' where x: "x = (k', v')" by (cases x)
  from Cons.IH show ?case
    unfolding x by (cases "k < k'"; cases "k = k'") (simp_all add: insert_commute)
qed

lemma set_emplace: "set (emplace k v xs) \<subseteq> insert (k, v) (set xs)"
  by (induction xs) (auto split: if_splits)

lemma ordered_emplace: "ordered xs \<Longrightarrow> ordered (emplace k v xs)"
proof (induction xs)
  case Nil
  then show ?case by (simp add: ordered_def)
next
  case (Cons x xs)
  obtain k' v' where x: "x = (k', v')" by (cases x)
  from Cons.prems have o: "ordered xs" and lt: "\<forall>j \<in> fst ` set xs. k' < j"
    by (auto simp: ordered_def x)
  from Cons.IH [OF o] have "ordered (emplace k v xs)" .
  with Cons.prems lt x show ?case
    using keys_emplace [of k v xs] by (auto simp: ordered_def)
qed




subsection \<open>Looking up the alert of a time\<close>



lemma alertInfo_stored:
  "alertInfo can t s = AlertInfo_default \<or> (\<exists>k. (k, alertInfo can t s) \<in> set (alerts s))"
proof (cases "lower_bound (mono_time_of can t) (alerts s)")
  case None
  then show ?thesis by (simp add: alertInfo_def)
next
  case (Some p)
  obtain k a where p: "p = (k, a)" by (cases p)
  with Some have "lower_bound (mono_time_of can t) (alerts s) = Some (k, a)" by simp
  from lower_bound_Some [OF this] have "(k, a) \<in> set (alerts s)" by simp
  with Some p show ?thesis by (auto simp: alertInfo_def)
qed





subsection \<open>Parsing a log\<close>

lemma alerts_parse_event:
  "alerts (parse_event ext e s) =
     (if is_alert_event e then emplace (mono_time e) (alert_of e) (alerts s) else alerts s)"
  by (simp add: parse_event_def is_alert_event_def alert_of_def
           split: EventBody.splits option.splits)


lemma alerts_fold_keys:
  "fst ` set (alerts (fold (parse_event ext) events s))
     = fst ` set (alerts s) \<union> mono_time ` {e \<in> set events. is_alert_event e}"
proof (induction events arbitrary: s)
  case Nil
  then show ?case by simp
next
  case (Cons e events)
  show ?case
    by (auto simp: Cons.IH alerts_parse_event keys_emplace)
qed

lemma alerts_fold_entries:
  "(k, a) \<in> set (alerts (fold (parse_event ext) events s)) \<Longrightarrow>
     (k, a) \<in> set (alerts s)
     \<or> (\<exists>e \<in> set events. is_alert_event e \<and> mono_time e = k \<and> alert_of e = a)"
proof (induction events arbitrary: s)
  case Nil
  then show ?case by simp
next
  case (Cons e events)
  from Cons.prems have "(k, a) \<in> set (alerts (fold (parse_event ext) events (parse_event ext e s)))"
    by simp
  from Cons.IH [OF this] show ?case
    using set_emplace [of "mono_time e" "alert_of e" "alerts s"]
    by (auto simp: alerts_parse_event split: if_splits)
qed

lemma alerts_fold_ordered:
  "ordered (alerts s) \<Longrightarrow> ordered (alerts (fold (parse_event ext) events s))"
  by (induction events arbitrary: s) (simp_all add: alerts_parse_event ordered_emplace)




text \<open>
  C10. Parsing a log adds alert entries at exactly the timestamps of its alert events: the
  keys afterwards are the keys before and those timestamps. Every entry afterwards was there
  before or is the alert of such an event at its timestamp. If every stored alert had a
  first text before, every stored alert has one afterwards; so \<open>alertInfo\<close> then gives the
  empty alert, for which \<open>showAlert\<close> hides the overlay, or an alert with a first text, for
  which it shows the overlay.
\<close>

theorem parseQLog_alerts:
  assumes "\<forall>(k, a) \<in> set (alerts s). text1 a \<noteq> []"
  shows "fst ` set (alerts (fst (parseQLog ext can segnum events s)))
           = fst ` set (alerts s) \<union> mono_time ` {e \<in> set events. is_alert_event e}
       \<and> (\<forall>(k, a) \<in> set (alerts (fst (parseQLog ext can segnum events s))).
             text1 a \<noteq> []
             \<and> ((k, a) \<in> set (alerts s)
                \<or> (\<exists>e \<in> set events. is_alert_event e \<and> mono_time e = k \<and> alert_of e = a)))
       \<and> (ordered (alerts s) \<longrightarrow> ordered (alerts (fst (parseQLog ext can segnum events s))))
       \<and> (alertInfo can t (fst (parseQLog ext can segnum events s)) = AlertInfo_default
            \<and> \<not> visible (showAlert (alertInfo can t (fst (parseQLog ext can segnum events s))) l)
          \<or> text1 (alertInfo can t (fst (parseQLog ext can segnum events s))) \<noteq> []
            \<and> visible (showAlert (alertInfo can t (fst (parseQLog ext can segnum events s))) l))"
proof -
  let ?s' = "fst (parseQLog ext can segnum events s)"
  have s': "alerts ?s' = alerts (fold (parse_event ext) events s)"
    by (simp add: parseQLog_def)
  have keys: "fst ` set (alerts ?s')
           = fst ` set (alerts s) \<union> mono_time ` {e \<in> set events. is_alert_event e}"
    unfolding s' by (rule alerts_fold_keys)
  have entries: "text1 a \<noteq> []
             \<and> ((k, a) \<in> set (alerts s)
                \<or> (\<exists>e \<in> set events. is_alert_event e \<and> mono_time e = k \<and> alert_of e = a))"
    if "(k, a) \<in> set (alerts ?s')" for k a
  proof -
    from that have "(k, a) \<in> set (alerts (fold (parse_event ext) events s))"
      by (simp only: s')
    from alerts_fold_entries [OF this]
    have or: "(k, a) \<in> set (alerts s)
                \<or> (\<exists>e \<in> set events. is_alert_event e \<and> mono_time e = k \<and> alert_of e = a)" .
    moreover have "text1 (alert_of e) \<noteq> []" if "is_alert_event e" for e
      using that by (auto simp: is_alert_event_def alert_of_def split: EventBody.splits)
    ultimately have "text1 a \<noteq> []"
      using assms by auto
    with or show ?thesis by simp
  qed
  have ord: "ordered (alerts s) \<longrightarrow> ordered (alerts ?s')"
    unfolding s' by (simp add: alerts_fold_ordered)
  have shown: "alertInfo can t ?s' = AlertInfo_default \<and> \<not> visible (showAlert (alertInfo can t ?s') l)
          \<or> text1 (alertInfo can t ?s') \<noteq> [] \<and> visible (showAlert (alertInfo can t ?s') l)"
    using alertInfo_stored [of can t ?s'] entries
    by (auto simp: showAlert_def AlertInfo_default_def)
  from keys entries ord shown show ?thesis
    by blast
qed

theorem parseQLog_alerts_witness:
  "alerts new_Slider = []
   \<and> alerts (fst (parseQLog example_ext example_can 0 example_events new_Slider))
       = [(4000000000, \<lparr>status = USER_PROMPT, text1 = ''Steer'', text2 = []\<rparr>)]
   \<and> {e \<in> set example_events. is_alert_event e} = {example_events ! 0}"
proof -
  have h: "\<forall>(k, a) \<in> set (alerts new_Slider). text1 a \<noteq> []"
    by (simp add: new_Slider_def)
  from parseQLog_alerts [OF h, of example_ext example_can 0 example_events] h
  show ?thesis
    by (auto simp: parseQLog_def parse_event_def example_events_def new_Slider_def
                  is_alert_event_def example_ext_def)
qed




subsection \<open>The alert overlay\<close>

text \<open>
  C1. The stream's update signal runs \<open>updateState\<close>. On a widget whose slider and overlay
  exist it completes, and leaves the overlay as \<open>showAlert\<close> of the alert that \<open>alertInfo\<close> finds at the
  stream's current second: the overlay holds that alert, and it is visible exactly when the
  first text of that alert is not empty.
\<close>

theorem updateState_alert_overlay:
  assumes "slider w = Some s" and "alert_label w = Some l"
  shows "\<exists>w' s' l'. updateState ext can w = Inr w'
           \<and> dispatch ext can stream_updated w = Inr (w', [])
           \<and> slider w' = Some s' \<and> alert_label w' = Some l'
           \<and> l' = showAlert (alertInfo can (currentSec can) s) l
           \<and> alert_info l' = alertInfo can (currentSec can) s'
           \<and> visible l' = (text1 (alertInfo can (currentSec can) s') \<noteq> [])"
  using assms
  by (auto simp: updateState_def dispatch_def on_slider_def bind_err_def deref_def Let_def
                 set_slider_def showAlert_def setCurrentSecond_def setValue_def alertInfo_def)

theorem updateState_alert_overlay_witness: "\<exists>w' l'. updateState example_ext example_can example_widget = Inr w'
      \<and> alert_label w' = Some l' \<and> visible l' \<and> alert_info l' = example_alert"
proof -
  have a: "slider example_widget = Some example_slider"
    by (simp add: example_widget_def)
  have b: "alert_label example_widget = Some new_InfoLabel"
    by (simp add: example_widget_def)
  have n: "mono_time_of example_can (currentSec example_can) = 3000000000"
    by (simp add: mono_time_of_def example_can_def double_eval)
  have c: "alertInfo example_can (currentSec example_can) example_slider = example_alert"
    by (simp add: alertInfo_def n) (simp add: example_slider_def new_Slider_def double_eval)
  from updateState_alert_overlay [OF a b, of example_ext example_can]
  obtain w' l' where "updateState example_ext example_can example_widget = Inr w'"
    and "alert_label w' = Some l'"
    and "l' = showAlert (alertInfo example_can (currentSec example_can) example_slider) new_InfoLabel"
    by blast
  with c show ?thesis
    by (simp add: showAlert_def example_alert_def)
qed

subsection \<open>Painting the timeline\<close>

lemma paint_timeline_rects:
  assumes "range_min s < range_max s" and "d_sub (range_max s) (range_min s) \<noteq> 0"
    and "rect_top r = 4" and "rect_bottom r = height s - 5"
  shows "paint_timeline (range_min s) (range_max s) (width s) r segs
         = Inr (map (timeline_rect s) (filter (\<lambda>seg. \<not> skipped s seg) segs))"
  using assms(3,4)
proof (induction segs arbitrary: r)
  case Nil
  then show ?case by simp
next
  case (Cons seg segs)
  obtain b e ty where seg: "seg = (b, e, ty)" by (cases seg)
  let ?lo = "range_min s" and ?hi = "range_max s"
  note lt = assms(1) and ne = assms(2)
  show ?case
  proof (cases "b > ?hi \<or> e < ?lo")
    case True
    with Cons show ?thesis by (simp add: seg skipped_def)
  next
    case False
    then have cb: "clamp_to ?lo ?hi b = max ?lo b" and ce: "clamp_to ?lo ?hi e = min ?hi e"
      using lt by (auto simp: clamp_to_def)
    let ?r2 = "r\<lparr>rect_left := to_pixel s (max ?lo b), rect_right := to_pixel s (min ?hi e)\<rparr>"
    have step: "paint_timeline ?lo ?hi (width s) r (seg # segs)
        = bind_err (paint_timeline ?lo ?hi (width s) ?r2 segs)
            (\<lambda>cmds. Inr (fillRect ?r2 (timeline_colors ty) # cmds))"
      unfolding seg to_pixel_def
      by (simp only: paint_timeline.simps False ne if_False Let_def)
    have r2: "?r2 = (bar s)\<lparr>rect_left := to_pixel s (max ?lo b), rect_right := to_pixel s (min ?hi e)\<rparr>"
      using Cons.prems by (simp add: bar_def)
    have rest: "paint_timeline ?lo ?hi (width s) ?r2 segs
         = Inr (map (timeline_rect s) (filter (\<lambda>seg. \<not> skipped s seg) segs))"
      by (rule Cons.IH) (simp_all add: Cons.prems)
    from False have keep: "\<not> skipped s seg"
      by (simp add: skipped_def seg)
    have rect: "timeline_rect s seg = fillRect ?r2 (timeline_colors ty)"
      unfolding r2 by (simp only: timeline_rect_def seg cb ce prod.case)
    show ?thesis
      unfolding step rest by (simp add: bind_err_def keep rect)
  qed
qed

text \<open>
  C3. On a slider whose range is not empty and lies in the range of an \<^verbatim>\<open>int\<close>,
  \<open>Slider::paintEvent\<close> completes and paints, in this order: the whole bar in the colour of
  \<open>None\<close>; for every segment of the stream's timeline that is not skipped, in the order of
  the timeline, its rectangle in the colour of its type; the handle. A segment is skipped
  when its begin is after \<open>max\<close> or its end before \<open>min\<close>, and the edges of a rectangle
  are the ends of the segment clamped to \<open>[min, max]\<close>, mapped to
  \<open>(x - min) / (max - min) * width\<close> in doubles and cut to an integer.
\<close>

theorem paintEvent_timeline:
  assumes "- 2147483648 \<le> minimum s" and "minimum s < maximum s" and "maximum s \<le> 2147483647"
  shows "paintEvent can s =
           Inr (fillRect (bar s) (timeline_colors TimelineType_None)
                # map (timeline_rect s) (filter (\<lambda>seg. \<not> skipped s seg) (getTimeline can))
                @ [drawSliderHandle (minimum s) (maximum s) (slider_value s)])"
proof -
  have "paint_timeline (range_min s) (range_max s) (width s) (bar s) (getTimeline can)
         = Inr (map (timeline_rect s) (filter (\<lambda>seg. \<not> skipped s seg) (getTimeline can)))"
    by (rule paint_timeline_rects [OF range_not_empty [OF assms]]) (simp_all add: bar_def)
  then show ?thesis
    by (simp add: paintEvent_def bar_def bind_err_def range_min_def range_max_def)
qed

theorem paintEvent_timeline_witness:
  "paintEvent example_can short_slider =
     Inr [fillRect \<lparr>rect_left = 0, rect_top = 4, rect_right = 199, rect_bottom = 25\<rparr> (QColor 111 143 175),
          fillRect \<lparr>rect_left = 0, rect_top = 4, rect_right = 50, rect_bottom = 25\<rparr> (QColor 0 163 108),
          fillRect \<lparr>rect_left = 114, rect_top = 4, rect_right = 150, rect_bottom = 25\<rparr> (QColor 255 195 0),
          drawSliderHandle 0 40000 0]"
proof -
  have h: "- 2147483648 \<le> minimum short_slider" "minimum short_slider < maximum short_slider"
      "maximum short_slider \<le> 2147483647"
    by (simp_all add: short_slider_def example_slider_def new_Slider_def)
  have lo: "range_min short_slider = 0" and hi: "range_max short_slider = 40"
    by (simp_all add: range_min_def range_max_def short_slider_def example_slider_def
          new_Slider_def double_eval)
  have px: "to_pixel short_slider 0 = 0" "to_pixel short_slider 10 = 50"
      "to_pixel short_slider 23 = 114" "to_pixel short_slider 30 = 150"
    unfolding to_pixel_def lo hi
    by (simp_all add: short_slider_def example_slider_def new_Slider_def double_eval)
  from paintEvent_timeline [OF h, of example_can] show ?thesis
    by (simp add: example_can_def skipped_def timeline_rect_def clamp_to_def lo hi px)
       (simp add: bar_def short_slider_def example_slider_def new_Slider_def)
qed

subsection \<open>The preview under the mouse\<close>







subsection \<open>Seeking\<close>

lemma speed_group:
  "fold (add_speed_btn ext) [0.1, 0.5, 1, 2] \<lparr>exclusive = True, buttons = []\<rparr> =
     \<lparr>exclusive = True,
      buttons =
        [(new_QToolButton\<lparr>btn_text := arg_text ext 0.1 @ ''x'', btn_checkable := True\<rparr>, 0.1),
         (new_QToolButton\<lparr>btn_text := arg_text ext 0.5 @ ''x'', btn_checkable := True\<rparr>, 0.5),
         (new_QToolButton\<lparr>btn_text := arg_text ext 1 @ ''x'', btn_checkable := True, btn_checked := True\<rparr>, 1),
         (new_QToolButton\<lparr>btn_text := arg_text ext 2 @ ''x'', btn_checkable := True\<rparr>, 2)]\<rparr>"
  by (simp add: add_speed_btn_def setChecked_def new_QToolButton_def enumerate_eq_zip upt_rec)

lemma ctor_group:
  assumes "VideoWidget_ctor ext can = Inr w"
  shows "group w = fold (add_speed_btn ext) [0.1, 0.5, 1, 2] \<lparr>exclusive = True, buttons = []\<rparr>"
proof (cases "liveStreaming can")
  case True
  with assms show ?thesis
    by (auto simp: VideoWidget_ctor_def bind_err_def Let_def updatePlayBtnState_def)
next
  case False
  with assms show ?thesis
    by (auto simp: VideoWidget_ctor_def bind_err_def Let_def updatePlayBtnState_def
          createCameraWidget_def setMaximumTime_def deref_def set_slider_def
          split: sum.splits if_splits)
qed

lemma lt4: "i < 4 \<Longrightarrow> i = 0 \<or> i = 1 \<or> i = 2 \<or> i = (3::nat)"
  by arith










subsection \<open>The buttons\<close>

text \<open>
  C8. A click on the play button calls \<open>pause\<close> on the stream with the negation of its paused
  state and nothing else. When the stream signals that it paused or resumed, the widget runs
  \<open>updatePlayBtnState\<close>, after which the icon of the button is \<open>play\<close> and its tool tip
  \<open>Play\<close> exactly when the stream is paused, and \<open>pause\<close> and \<open>Pause\<close> exactly when it is
  not.
\<close>

theorem play_button:
  "dispatch ext can play_btn_clicked w = Inr (w, [pause (\<not> isPaused can)])
   \<and> dispatch ext can stream_paused w = Inr (updatePlayBtnState can w, [])
   \<and> dispatch ext can stream_resume w = Inr (updatePlayBtnState can w, [])
   \<and> (btn_icon (play_btn (updatePlayBtnState can w)) = ''play'') = isPaused can
   \<and> (btn_toolTip (play_btn (updatePlayBtnState can w)) = ''Play'') = isPaused can
   \<and> (btn_icon (play_btn (updatePlayBtnState can w)) = ''pause'') = (\<not> isPaused can)
   \<and> (btn_toolTip (play_btn (updatePlayBtnState can w)) = ''Pause'') = (\<not> isPaused can)"
  by (simp add: dispatch_def updatePlayBtnState_def)

text \<open>
  C9. A constructed widget has one exclusive button group of exactly four checkable buttons,
  for the speeds 0.1, 0.5, 1 and 2 in this order, of which only the third is checked. A click
  on the button of a speed calls \<open>setSpeed\<close> on the stream with that speed and nothing else,
  and leaves that button the only one checked.
\<close>

theorem speed_buttons:
  assumes "VideoWidget_ctor ext can = Inr w"
  shows "exclusive (group w)
       \<and> map snd (buttons (group w)) = [0.1, 0.5, 1, 2]
       \<and> map (btn_checkable \<circ> fst) (buttons (group w)) = [True, True, True, True]
       \<and> map (btn_checked \<circ> fst) (buttons (group w)) = [False, False, True, False]
       \<and> (\<forall>i < 4. \<exists>w'. dispatch ext can' (speed_btn_clicked i) w
                            = Inr (w', [setSpeed ([0.1, 0.5, 1, 2] ! i)])
                    \<and> exclusive (group w')
                    \<and> map (btn_checked \<circ> fst) (buttons (group w')) = map (\<lambda>j. j = i) [0, 1, 2, 3])"
proof -
  note g = ctor_group [OF assms, unfolded speed_group]
  have click: "\<exists>w'. dispatch ext can' (speed_btn_clicked i) w
                            = Inr (w', [setSpeed ([0.1, 0.5, 1, 2] ! i)])
                    \<and> exclusive (group w')
                    \<and> map (btn_checked \<circ> fst) (buttons (group w')) = map (\<lambda>j. j = i) [0, 1, 2, 3]"
    if "i < 4" for i
    using lt4 [OF that]
    by (elim disjE)
       (simp_all add: g dispatch_def click_speed_btn_def bind_err_def setChecked_def
          new_QToolButton_def enumerate_eq_zip upt_rec)
  show ?thesis
    using click by (simp add: g new_QToolButton_def)
qed

theorem speed_buttons_witness:
  "\<exists>w w'. VideoWidget_ctor example_ext live_can = Inr w
      \<and> map snd (buttons (group w)) = [0.1, 0.5, 1, 2]
      \<and> dispatch example_ext live_can (speed_btn_clicked 3) w = Inr (w', [setSpeed 2])
      \<and> map (btn_checked \<circ> fst) (buttons (group w')) = [False, False, False, True]"
proof -
  obtain w where w: "VideoWidget_ctor example_ext live_can = Inr w"
    by (simp add: VideoWidget_ctor_def live_can_def bind_err_def Let_def)
  from speed_buttons [OF w, of live_can] show ?thesis
    using w by (auto simp: numeral_nat)
qed

end
